theory Spec2Isabelle
  imports Complex_Main
begin

section \<open>Python values and exceptions\<close>

text \<open>
  The embedding follows \<^verbatim>\<open>src/geomagio/edge/EdgeFactory.py\<close>. A method
  \<^verbatim>\<open>_name\<close> of the class is the constant \<open>u_name\<close> (an Isabelle name cannot
  start with an underscore); public methods keep their names. A Python value that is
  a string or \<^verbatim>\<open>None\<close> is a \<open>string option\<close>.

  Every exception the module can raise is a value of \<open>error\<close>. The first three are
  the module's \<^verbatim>\<open>TimeseriesFactoryException\<close>, one constructor per message:
  \<^verbatim>\<open>'Starttime before endtime "%s" "%s"'\<close>, \<^verbatim>\<open>'Unexpected channel code "%s"'\<close> and
  \<^verbatim>\<open>'Unexpected interval "%s"'\<close>, each carrying the values formatted into it.
  \<open>UnboundLocalError\<close> names the local variable read before assignment,
  \<open>TypeError\<close> is the iteration over \<^verbatim>\<open>None\<close>, \<open>ZeroDivisionError\<close> and
  \<open>ValueError\<close> come from the gap arithmetic, and \<open>CollaboratorError\<close> stands for
  whatever a transport collaborator raises.
\<close>

datatype error =
    StarttimeBeforeEndtime rat rat
  | UnexpectedChannelCode string
  | UnexpectedInterval "string option"
  | UnboundLocalError string
  | TypeError
  | ZeroDivisionError
  | ValueError
  | CollaboratorError

fun is_TimeseriesFactoryException :: "error \<Rightarrow> bool" where
  "is_TimeseriesFactoryException (StarttimeBeforeEndtime _ _) = True"
| "is_TimeseriesFactoryException (UnexpectedChannelCode _) = True"
| "is_TimeseriesFactoryException (UnexpectedInterval _) = True"
| "is_TimeseriesFactoryException _ = False"

text \<open>
  Python's \<^verbatim>\<open>x or y\<close> on values that are \<^verbatim>\<open>None\<close>, a string or a list: \<^verbatim>\<open>None\<close>
  and the empty sequence are falsy, so \<^verbatim>\<open>y\<close> is the result for both.
\<close>

definition py_or :: "'a list option \<Rightarrow> 'a list option \<Rightarrow> 'a list option" where
  "py_or x y = (case x of None \<Rightarrow> y | Some v \<Rightarrow> (if v = [] then y else x))"

section \<open>The factory object\<close>

record edge_factory =
  self_observatory :: "string option"
  self_channels :: "string list option"
  self_type :: "string option"
  self_interval :: "string option"
  self_locationCode :: "string option"
  self_tag :: string
  self_host :: "string option"
  self_port :: "int option"
  self_cwbhost :: string
  self_cwbport :: int

section \<open>Code mapper\<close>

definition u_get_edge_network ::
  "edge_factory \<Rightarrow> string option \<Rightarrow> string \<Rightarrow> string option \<Rightarrow> string option \<Rightarrow> string" where
  "u_get_edge_network self observatory channel type' interval = ''NT''"

definition u_get_edge_station ::
  "edge_factory \<Rightarrow> string option \<Rightarrow> string \<Rightarrow> string option \<Rightarrow> string option
    \<Rightarrow> string option" where
  "u_get_edge_station self observatory channel type' interval = observatory"

definition u_get_interval_code :: "edge_factory \<Rightarrow> string option \<Rightarrow> error + string" where
  "u_get_interval_code self interval =
     (if interval = Some ''daily'' then Inr ''D''
      else if interval = Some ''hourly'' then Inr ''H''
      else if interval = Some ''minute'' then Inr ''M''
      else if interval = Some ''second'' then Inr ''S''
      else Inl (UnexpectedInterval interval))"

definition u_get_edge_channel ::
  "edge_factory \<Rightarrow> string option \<Rightarrow> string \<Rightarrow> string option \<Rightarrow> string option
    \<Rightarrow> error + string" where
  "u_get_edge_channel self observatory channel type' interval =
     (case u_get_interval_code self interval of
        Inl e \<Rightarrow> Inl e
      | Inr edge_interval_code \<Rightarrow>
          (if channel = ''D'' then Inr (edge_interval_code @ ''VD'')
           else if channel = ''E'' then Inr (edge_interval_code @ ''VE'')
           else if channel = ''F'' then Inr (edge_interval_code @ ''SF'')
           else if channel = ''H'' then Inr (edge_interval_code @ ''VH'')
           else if channel = ''Z'' then Inr (edge_interval_code @ ''VZ'')
           else Inl (UnexpectedChannelCode channel)))"

definition u_get_edge_location ::
  "edge_factory \<Rightarrow> string option \<Rightarrow> string \<Rightarrow> string option \<Rightarrow> string option
    \<Rightarrow> string option" where
  "u_get_edge_location self observatory channel type' interval =
     (if self_locationCode self \<noteq> None then self_locationCode self
      else if type' = Some ''variation'' then Some ''R0''
      else if type' = Some ''quasi-definitive'' then Some ''Q0''
      else if type' = Some ''definitive'' then Some ''D0''
      else None)"

text \<open>
  The suffix table as the specification words it (D to "VD", E to "VE", F to "SF",
  H to "VH", Z to "VZ"), to compare with what \<open>u_get_edge_channel\<close> computes.
\<close>

definition spec_channel_suffix :: "string \<Rightarrow> string" where
  "spec_channel_suffix channel =
     (if channel = ''D'' then ''VD'' else if channel = ''E'' then ''VE''
      else if channel = ''F'' then ''SF'' else if channel = ''H'' then ''VH''
      else ''VZ'')"

section \<open>Numbers\<close>

text \<open>
  Sample values are numpy \<^verbatim>\<open>float64\<close>. A finite double is the rational number it
  denotes, and an operation on doubles is the exact operation followed by
  \<open>round_double\<close>: rounding to the nearest number with a 53-bit significand, ties to the
  even significand (IEEE 754 binary64 in its normal range; overflow and subnormal
  numbers are outside the model). \<open>floor_log2 n\<close> is the position of the leading bit of
  a positive integer and \<open>ilog2 x\<close> the binary exponent of a non-zero rational.
\<close>

definition pow2 :: "int \<Rightarrow> rat" where
  "pow2 e = (if 0 \<le> e then 2 ^ nat e else 1 / 2 ^ nat (- e))"

function floor_log2 :: "int \<Rightarrow> int" where
  "floor_log2 n = (if n \<le> 1 then 0 else 1 + floor_log2 (n div 2))"
  by pat_completeness auto
termination
  by (relation "measure nat") auto

definition ilog2 :: "rat \<Rightarrow> int" where
  "ilog2 x =
     (let (p, q) = quotient_of \<bar>x\<bar>;
          k = floor_log2 p - floor_log2 q
      in if pow2 k \<le> \<bar>x\<bar> then k else k - 1)"

definition round_half_even :: "rat \<Rightarrow> int" where
  "round_half_even x =
     (let f = \<lfloor>x\<rfloor>; r = x - of_int f
      in if r < 1 / 2 then f
         else if 1 / 2 < r then f + 1
         else if even f then f else f + 1)"

definition round_double :: "rat \<Rightarrow> rat" where
  "round_double x =
     (if x = 0 then 0
      else let e = ilog2 x - 52 in of_int (round_half_even (x / pow2 e)) * pow2 e)"

text \<open>
  Python's \<^verbatim>\<open>int(x)\<close> and numpy's \<^verbatim>\<open>astype(int)\<close> on a float drop the fraction:
  they truncate toward zero.
\<close>

definition trunc :: "rat \<Rightarrow> int" where
  "trunc x = (if 0 \<le> x then \<lfloor>x\<rfloor> else \<lceil>x\<rceil>)"

section \<open>Traces and streams\<close>

text \<open>
  A sample of a float array is a number, the not-a-number sentinel, or an entry a
  \<^verbatim>\<open>MaskedArray\<close> masks. A sample of an integer array (what \<^verbatim>\<open>astype(int)\<close>
  returns) is an integer, a masked entry, or the value numpy leaves unspecified when
  it casts not-a-number.

  A trace holds the fields of obspy's \<^verbatim>\<open>Trace\<close> the module reads and writes:
  \<^verbatim>\<open>stats.channel\<close>, \<^verbatim>\<open>stats.starttime\<close>, \<^verbatim>\<open>stats.delta\<close> and \<^verbatim>\<open>data\<close>, and
  the attribute \<^verbatim>\<open>stats.endttime\<close> that \<^verbatim>\<open>_clean_timeseries\<close> assigns. A time
  (\<^verbatim>\<open>UTCDateTime\<close>) and a sample interval are the rational numbers of seconds that
  their float64 values denote. obspy derives
  \<^verbatim>\<open>stats.npts\<close> and \<^verbatim>\<open>stats.endtime\<close> from the others: these are \<open>stats_npts\<close>
  and \<open>stats_endtime\<close>. A stream is the list of its traces.
\<close>

datatype sample = Num rat | NaN | Masked

datatype isample = IntVal int | IntUndefined | IntMasked

record 'a trace =
  stats_channel :: string
  stats_starttime :: rat
  stats_delta :: rat
  stats_endttime :: "rat option"
  trace_data :: "'a list"

definition stats_npts :: "'a trace \<Rightarrow> nat" where
  "stats_npts trace = length (trace_data trace)"

definition stats_endtime :: "'a trace \<Rightarrow> rat" where
  "stats_endtime trace =
     stats_starttime trace +
       (if stats_npts trace = 0 then 0
        else (of_nat (stats_npts trace) - 1) * stats_delta trace)"

section \<open>Numeric codec\<close>

fun divide_1000 :: "sample \<Rightarrow> sample" where
  "divide_1000 (Num v) = Num (round_double (v / 1000))"
| "divide_1000 NaN = NaN"
| "divide_1000 Masked = Masked"

definition u_convert_trace_to_decimal ::
  "edge_factory \<Rightarrow> sample trace list \<Rightarrow> sample trace list" where
  "u_convert_trace_to_decimal self stream =
     map (\<lambda>trace. trace\<lparr>trace_data := map divide_1000 (trace_data trace)\<rparr>) stream"

fun multiply_1000 :: "sample \<Rightarrow> sample" where
  "multiply_1000 (Num v) = Num (round_double (v * 1000))"
| "multiply_1000 NaN = NaN"
| "multiply_1000 Masked = Masked"

fun astype_int :: "sample \<Rightarrow> isample" where
  "astype_int (Num v) = IntVal (trunc v)"
| "astype_int NaN = IntUndefined"
| "astype_int Masked = IntMasked"

definition u_convert_trace_to_int :: "edge_factory \<Rightarrow> sample trace \<Rightarrow> isample trace" where
  "u_convert_trace_to_int self trace =
     \<lparr>stats_channel = stats_channel trace,
      stats_starttime = stats_starttime trace,
      stats_delta = stats_delta trace,
      stats_endttime = stats_endttime trace,
      trace_data = map astype_int (map multiply_1000 (trace_data trace))\<rparr>"

fun masked_invalid :: "sample \<Rightarrow> sample" where
  "masked_invalid (Num v) = Num v"
| "masked_invalid NaN = Masked"
| "masked_invalid Masked = Masked"

fun filled_nan :: "sample \<Rightarrow> sample" where
  "filled_nan (Num v) = Num v"
| "filled_nan NaN = NaN"
| "filled_nan Masked = NaN"

section \<open>Gap reconciler\<close>

text \<open>
  \<open>u_clean_trace\<close> is the body of the loop of \<^verbatim>\<open>_clean_timeseries\<close> for one trace.
  The trace's start and end times are read before either branch runs. The count of
  padding samples is \<^verbatim>\<open>int((t1 - t0) / trace.stats.delta)\<close>: the difference of the
  two times is a float64 of seconds, the quotient is a float64 division, and
  \<^verbatim>\<open>int\<close> truncates it. A division by a zero \<^verbatim>\<open>stats.delta\<close> raises
  \<^verbatim>\<open>ZeroDivisionError\<close>, and \<^verbatim>\<open>numpy.full\<close> with a negative count raises
  \<^verbatim>\<open>ValueError\<close>. The last assignment of the second branch sets the attribute
  \<^verbatim>\<open>endttime\<close>, which nothing reads.
\<close>

definition pad_front :: "sample trace \<Rightarrow> rat \<Rightarrow> rat \<Rightarrow> error + sample trace" where
  "pad_front trace trace_starttime starttime =
     (if stats_starttime trace > starttime then
        (if stats_delta trace = 0 then Inl ZeroDivisionError
         else let cnt = trunc (round_double
                                 (round_double (trace_starttime - starttime)
                                    / stats_delta trace))
              in if cnt < 0 then Inl ValueError
                 else Inr (trace\<lparr>trace_data := replicate (nat cnt) NaN @ trace_data trace,
                                 stats_starttime := starttime\<rparr>))
      else Inr trace)"

definition pad_back :: "sample trace \<Rightarrow> rat \<Rightarrow> rat \<Rightarrow> error + sample trace" where
  "pad_back trace trace_endtime endtime =
     (if trace_endtime < endtime then
        (if stats_delta trace = 0 then Inl ZeroDivisionError
         else let cnt = trunc (round_double
                                 (round_double (endtime - trace_endtime)
                                    / stats_delta trace))
              in if cnt < 0 then Inl ValueError
                 else Inr (trace\<lparr>trace_data := trace_data trace @ replicate (nat cnt) NaN,
                                 stats_endttime := Some endtime\<rparr>))
      else Inr trace)"

definition u_clean_trace :: "sample trace \<Rightarrow> rat \<Rightarrow> rat \<Rightarrow> error + sample trace" where
  "u_clean_trace trace starttime endtime =
     (let trace_starttime = stats_starttime trace;
          trace_endtime = stats_endtime trace
      in case pad_front trace trace_starttime starttime of
           Inl e \<Rightarrow> Inl e
         | Inr trace' \<Rightarrow> pad_back trace' trace_endtime endtime)"

fun u_clean_timeseries ::
  "edge_factory \<Rightarrow> sample trace list \<Rightarrow> rat \<Rightarrow> rat \<Rightarrow> error + sample trace list" where
  "u_clean_timeseries self [] starttime endtime = Inr []"
| "u_clean_timeseries self (trace # timeseries) starttime endtime =
     (case u_clean_trace trace starttime endtime of
        Inl e \<Rightarrow> Inl e
      | Inr trace' \<Rightarrow>
          (case u_clean_timeseries self timeseries starttime endtime of
             Inl e \<Rightarrow> Inl e
           | Inr timeseries' \<Rightarrow> Inr (trace' # timeseries')))"

definition u_post_process ::
  "edge_factory \<Rightarrow> sample trace list \<Rightarrow> rat \<Rightarrow> rat \<Rightarrow> string list
    \<Rightarrow> error + sample trace list" where
  "u_post_process self timeseries starttime endtime channels =
     u_clean_timeseries self
       (map (\<lambda>trace. trace\<lparr>trace_data := map filled_nan (trace_data trace)\<rparr>)
          (u_convert_trace_to_decimal self timeseries))
       starttime endtime"

text \<open>
  The count of padding samples as the specification words it: the quotient rounded to
  the nearest integer.
\<close>

definition spec_gap_count :: "rat \<Rightarrow> rat \<Rightarrow> int" where
  "spec_gap_count gap sample_interval = round (gap / sample_interval)"

section \<open>Collaborators and their calls\<close>

text \<open>
  Modelled from the spec: \<^verbatim>\<open>RawInputClient.create_seedname\<close> is not part of the source
  file; the specification gives it as \<^verbatim>\<open>buildIdentity(station, channel, location,
  network)\<close>, returning the wire identity of the four codes. The identity is the record
  of the four arguments.
\<close>

record seedname =
  sn_station :: "string option"
  sn_channel :: string
  sn_location :: "string option"
  sn_network :: string

definition create_seedname ::
  "string option \<Rightarrow> string \<Rightarrow> string option \<Rightarrow> string \<Rightarrow> seedname" where
  "create_seedname station channel location network =
     \<lparr>sn_station = station, sn_channel = channel, sn_location = location,
      sn_network = network\<rparr>"

text \<open>
  Every call that leaves the module is an effect, recorded in the order the calls are
  made: the waveserver query \<^verbatim>\<open>client.getWaveform\<close>, the construction of the
  \<^verbatim>\<open>RawInputClient\<close> (tag, host, port, cwbhost, cwbport), its \<^verbatim>\<open>send\<close> (seedname,
  nsamp, data, starttime, samplerate; the four trailing arguments are the constant 0),
  \<^verbatim>\<open>forceout\<close> and \<^verbatim>\<open>close\<close>, and the line written to \<^verbatim>\<open>sys.stderr\<close> for a
  missing channel.
\<close>

datatype effect =
    GetWaveform string "string option" "string option" string rat rat
  | RawInputClient string "string option" "int option" string int
  | Send seedname nat "isample list" rat rat
  | Forceout seedname
  | Close
  | StderrMissingChannel string

fun is_Send :: "effect \<Rightarrow> bool" where
  "is_Send (Send _ _ _ _ _) = True"
| "is_Send _ = False"

fun is_Forceout :: "effect \<Rightarrow> bool" where
  "is_Forceout (Forceout _) = True"
| "is_Forceout _ = False"

fun is_RawInputClient :: "effect \<Rightarrow> bool" where
  "is_RawInputClient (RawInputClient _ _ _ _ _) = True"
| "is_RawInputClient _ = False"

text \<open>
  The collaborators are parameters of the model. \<open>raises\<close> says which calls of a
  transport raise; the call is recorded either way. \<open>select_match channel trace\<close> is
  the test of \<^verbatim>\<open>Stream.select(channel=channel)\<close>, \<open>split\<close> is \<^verbatim>\<open>Stream.split\<close>,
  \<open>slice\<close> is \<^verbatim>\<open>Trace.slice\<close>, \<open>merge\<close> is \<^verbatim>\<open>Stream.merge\<close>, \<open>getWaveform\<close> is
  what the waveserver returns and \<open>set_metadata\<close> is
  \<^verbatim>\<open>ObservatoryMetadata.set_metadata\<close> on one trace.
\<close>

record collaborators =
  raises :: "effect \<Rightarrow> bool"
  select_match :: "string \<Rightarrow> sample trace \<Rightarrow> bool"
  split :: "sample trace list \<Rightarrow> sample trace list"
  slice :: "sample trace \<Rightarrow> rat \<Rightarrow> rat \<Rightarrow> sample trace"
  merge :: "sample trace list \<Rightarrow> sample trace list"
  getWaveform ::
    "string \<Rightarrow> string option \<Rightarrow> string option \<Rightarrow> string \<Rightarrow> rat \<Rightarrow> rat \<Rightarrow> sample trace list"
  set_metadata ::
    "sample trace \<Rightarrow> string option \<Rightarrow> string \<Rightarrow> string option \<Rightarrow> string option
      \<Rightarrow> sample trace"

definition select :: "collaborators \<Rightarrow> sample trace list \<Rightarrow> string \<Rightarrow> sample trace list" where
  "select env timeseries channel = filter (select_match env channel) timeseries"

definition u_convert_stream_to_masked ::
  "collaborators \<Rightarrow> edge_factory \<Rightarrow> sample trace list \<Rightarrow> string \<Rightarrow> sample trace list" where
  "u_convert_stream_to_masked env self timeseries channel =
     map (\<lambda>trace. if select_match env channel trace
                   then trace\<lparr>trace_data := map masked_invalid (trace_data trace)\<rparr>
                   else trace)
       timeseries"

definition u_set_metadata ::
  "collaborators \<Rightarrow> edge_factory \<Rightarrow> sample trace list \<Rightarrow> string option \<Rightarrow> string
    \<Rightarrow> string option \<Rightarrow> string option \<Rightarrow> sample trace list" where
  "u_set_metadata env self stream observatory channel type' interval =
     map (\<lambda>trace. set_metadata env trace observatory channel type' interval) stream"

section \<open>Read pipeline\<close>

definition u_get_timeseries ::
  "collaborators \<Rightarrow> edge_factory \<Rightarrow> rat \<Rightarrow> rat \<Rightarrow> string option \<Rightarrow> string
    \<Rightarrow> string option \<Rightarrow> string option \<Rightarrow> (error + sample trace list) \<times> effect list" where
  "u_get_timeseries env self starttime endtime observatory channel type' interval =
     (let station = u_get_edge_station self observatory channel type' interval;
          location = u_get_edge_location self observatory channel type' interval;
          network = u_get_edge_network self observatory channel type' interval
      in case u_get_edge_channel self observatory channel type' interval of
           Inl e \<Rightarrow> (Inl e, [])
         | Inr edge_channel \<Rightarrow>
             (let call = GetWaveform network station location edge_channel starttime endtime
              in if raises env call then (Inl CollaboratorError, [call])
                 else
                   (let data = getWaveform env network station location edge_channel
                                 starttime endtime;
                        data = merge env data;
                        data = u_set_metadata env self data observatory channel type' interval
                    in (Inr data, [call]))))"

fun get_channels ::
  "collaborators \<Rightarrow> edge_factory \<Rightarrow> rat \<Rightarrow> rat \<Rightarrow> string option \<Rightarrow> string option
    \<Rightarrow> string option \<Rightarrow> string list \<Rightarrow> sample trace list
    \<Rightarrow> (error + sample trace list) \<times> effect list" where
  "get_channels env self starttime endtime observatory type' interval [] timeseries =
     (Inr timeseries, [])"
| "get_channels env self starttime endtime observatory type' interval (channel # channels)
     timeseries =
     (case u_get_timeseries env self starttime endtime observatory channel type' interval of
        (Inl e, calls) \<Rightarrow> (Inl e, calls)
      | (Inr data, calls) \<Rightarrow>
          (case get_channels env self starttime endtime observatory type' interval channels
                  (timeseries @ data) of
             (r, calls') \<Rightarrow> (r, calls @ calls')))"

definition get_timeseries ::
  "collaborators \<Rightarrow> edge_factory \<Rightarrow> rat \<Rightarrow> rat \<Rightarrow> string option \<Rightarrow> string list option
    \<Rightarrow> string option \<Rightarrow> string option \<Rightarrow> (error + sample trace list) \<times> effect list" where
  "get_timeseries env self starttime endtime observatory channels type' interval =
     (let observatory = py_or observatory (self_observatory self);
          channels = py_or channels (self_channels self);
          type' = py_or type' (self_type self);
          interval = py_or interval (self_interval self)
      in if starttime > endtime then (Inl (StarttimeBeforeEndtime starttime endtime), [])
         else
           (case channels of
              None \<Rightarrow> (Inl TypeError, [])
            | Some chs \<Rightarrow>
                (case get_channels env self starttime endtime observatory type' interval chs []
                 of
                   (Inl e, calls) \<Rightarrow> (Inl e, calls)
                 | (Inr timeseries, calls) \<Rightarrow>
                     (case u_post_process self timeseries starttime endtime chs of
                        Inl e \<Rightarrow> (Inl e, calls)
                      | Inr timeseries' \<Rightarrow> (Inr timeseries', calls)))))"

section \<open>Write pipeline\<close>

definition HOURSECONDS :: nat where
  "HOURSECONDS = 3600"

definition DAYMINUTES :: nat where
  "DAYMINUTES = 1440"

text \<open>
  \<^verbatim>\<open>xrange(start, stop, step)\<close> for a positive step. The step of the loop of
  \<^verbatim>\<open>_put_trace\<close> is read once, when the loop starts, and is 3600 or 1440.
\<close>

definition xrange :: "nat \<Rightarrow> nat \<Rightarrow> nat \<Rightarrow> nat list" where
  "xrange start stop step =
     map (\<lambda>k. start + k * step) [0 ..< (stop - start + step - 1) div step]"

text \<open>
  The local variables of \<^verbatim>\<open>_put_trace\<close> that one iteration of its loop assigns and a
  later one reads: \<^verbatim>\<open>location\<close>, \<^verbatim>\<open>nsamp\<close>, \<^verbatim>\<open>starttime\<close> and \<^verbatim>\<open>seedname\<close>
  (unbound until the first iteration). \<open>put_window\<close> is one iteration; the index
  \<open>i\<close> is below \<open>totalsamps\<close> in every iteration, so \<open>totalsamps - i\<close> and
  \<open>endsample - i\<close> are the integer differences.
\<close>

record put_locals =
  l_location :: "string option"
  l_nsamp :: nat
  l_starttime :: rat
  l_seedname :: "seedname option"

definition put_window ::
  "collaborators \<Rightarrow> edge_factory \<Rightarrow> sample trace \<Rightarrow> string option \<Rightarrow> string \<Rightarrow> string
    \<Rightarrow> nat \<Rightarrow> nat \<Rightarrow> rat \<Rightarrow> nat \<Rightarrow> put_locals \<Rightarrow> (error + put_locals) \<times> effect list" where
  "put_window env self trace station edge_channel network totalsamps timeoffset samplerate
     i locals =
     (let location = py_or (self_locationCode self) (l_location locals);
          seedname = create_seedname station edge_channel location network;
          endsample = (if totalsamps - i < l_nsamp locals then totalsamps
                       else i + l_nsamp locals);
          nsamp = endsample - i;
          starttime = l_starttime locals;
          endtime = starttime + (of_nat nsamp - 1) * of_nat timeoffset;
          trace_send = slice env trace starttime endtime;
          trace_send = u_convert_trace_to_int self trace_send;
          call = Send seedname nsamp (trace_data trace_send) starttime samplerate
      in if raises env call then (Inl CollaboratorError, [call])
         else (Inr \<lparr>l_location = location, l_nsamp = nsamp,
                    l_starttime = starttime + of_nat nsamp * of_nat timeoffset,
                    l_seedname = Some seedname\<rparr>, [call]))"

fun put_windows ::
  "collaborators \<Rightarrow> edge_factory \<Rightarrow> sample trace \<Rightarrow> string option \<Rightarrow> string \<Rightarrow> string
    \<Rightarrow> nat \<Rightarrow> nat \<Rightarrow> rat \<Rightarrow> nat list \<Rightarrow> put_locals \<Rightarrow> (error + put_locals) \<times> effect list" where
  "put_windows env self trace station edge_channel network totalsamps timeoffset samplerate
     [] locals = (Inr locals, [])"
| "put_windows env self trace station edge_channel network totalsamps timeoffset samplerate
     (i # rest) locals =
     (case put_window env self trace station edge_channel network totalsamps timeoffset
             samplerate i locals of
        (Inl e, calls) \<Rightarrow> (Inl e, calls)
      | (Inr locals', calls) \<Rightarrow>
          (case put_windows env self trace station edge_channel network totalsamps timeoffset
                  samplerate rest locals' of
             (r, calls') \<Rightarrow> (r, calls @ calls')))"

text \<open>
  The loop of \<^verbatim>\<open>_put_trace\<close> and the \<^verbatim>\<open>forceout\<close> after it, once \<^verbatim>\<open>nsamp\<close>,
  \<^verbatim>\<open>timeoffset\<close> and \<^verbatim>\<open>samplerate\<close> are bound. With no iteration \<^verbatim>\<open>seedname\<close> is
  unbound when \<^verbatim>\<open>forceout\<close> reads it.
\<close>

definition put_trace_windows ::
  "collaborators \<Rightarrow> edge_factory \<Rightarrow> sample trace \<Rightarrow> string option \<Rightarrow> string \<Rightarrow> string option
    \<Rightarrow> string \<Rightarrow> nat \<Rightarrow> nat \<Rightarrow> rat \<Rightarrow> (error + unit) \<times> effect list" where
  "put_trace_windows env self trace station edge_channel location network nsamp timeoffset
     samplerate =
     (let totalsamps = length (trace_data trace);
          starttime = stats_starttime trace
      in case put_windows env self trace station edge_channel network totalsamps timeoffset
                samplerate (xrange 0 totalsamps nsamp)
                \<lparr>l_location = location, l_nsamp = nsamp, l_starttime = starttime,
                 l_seedname = None\<rparr> of
           (Inl e, calls) \<Rightarrow> (Inl e, calls)
         | (Inr locals, calls) \<Rightarrow>
             (case l_seedname locals of
                None \<Rightarrow> (Inl (UnboundLocalError ''seedname''), calls)
              | Some seedname \<Rightarrow>
                  (if raises env (Forceout seedname)
                   then (Inl CollaboratorError, calls @ [Forceout seedname])
                   else (Inr (), calls @ [Forceout seedname]))))"

text \<open>
  \<^verbatim>\<open>_put_trace\<close> tests \<^verbatim>\<open>self.interval\<close>, not its argument \<^verbatim>\<open>interval\<close>, and has
  no \<^verbatim>\<open>else\<close>: for any other value \<^verbatim>\<open>nsamp\<close> is unbound when the loop header reads
  it. The sample rate of minute data is the double nearest to 1/60.
\<close>

definition u_put_trace ::
  "collaborators \<Rightarrow> edge_factory \<Rightarrow> sample trace \<Rightarrow> string option \<Rightarrow> string \<Rightarrow> string option
    \<Rightarrow> string option \<Rightarrow> (error + unit) \<times> effect list" where
  "u_put_trace env self trace observatory channel type' interval =
     (let station = u_get_edge_station self observatory channel type' interval;
          location = u_get_edge_location self observatory channel type' interval;
          network = u_get_edge_network self observatory channel type' interval
      in case u_get_edge_channel self observatory channel type' interval of
           Inl e \<Rightarrow> (Inl e, [])
         | Inr edge_channel \<Rightarrow>
             (if self_interval self = Some ''second'' then
                put_trace_windows env self trace station edge_channel location network
                  HOURSECONDS 1 1
              else if self_interval self = Some ''minute'' then
                put_trace_windows env self trace station edge_channel location network
                  DAYMINUTES 60 (round_double (1 / 60))
              else (Inl (UnboundLocalError ''nsamp''), [])))"

fun put_traces ::
  "collaborators \<Rightarrow> edge_factory \<Rightarrow> string option \<Rightarrow> string \<Rightarrow> string option \<Rightarrow> string option
    \<Rightarrow> sample trace list \<Rightarrow> (error + unit) \<times> effect list" where
  "put_traces env self observatory channel type' interval [] = (Inr (), [])"
| "put_traces env self observatory channel type' interval (trace # traces) =
     (case u_put_trace env self trace observatory channel type' interval of
        (Inl e, calls) \<Rightarrow> (Inl e, calls)
      | (Inr u, calls) \<Rightarrow>
          (case put_traces env self observatory channel type' interval traces of
             (r, calls') \<Rightarrow> (r, calls @ calls')))"

text \<open>
  The loop over the channels of \<^verbatim>\<open>put_timeseries\<close>. The stream is threaded through:
  \<^verbatim>\<open>_convert_stream_to_masked\<close> replaces the data of the caller's traces. The result
  is the outcome, the stream as the loop leaves it and the calls made.
\<close>

fun put_channels ::
  "collaborators \<Rightarrow> edge_factory \<Rightarrow> string option \<Rightarrow> string option \<Rightarrow> string option
    \<Rightarrow> string list \<Rightarrow> sample trace list
    \<Rightarrow> (error + unit) \<times> sample trace list \<times> effect list" where
  "put_channels env self observatory type' interval [] timeseries = (Inr (), timeseries, [])"
| "put_channels env self observatory type' interval (channel # channels) timeseries =
     (if length (select env timeseries channel) = 0 then
        (case put_channels env self observatory type' interval channels timeseries of
           (r, timeseries', calls) \<Rightarrow> (r, timeseries', StderrMissingChannel channel # calls))
      else
        (let timeseries1 = u_convert_stream_to_masked env self timeseries channel
         in case put_traces env self observatory channel type' interval
                   (split env (select env timeseries1 channel)) of
              (Inl e, calls) \<Rightarrow> (Inl e, timeseries1, calls)
            | (Inr u, calls) \<Rightarrow>
                (case put_channels env self observatory type' interval channels timeseries1 of
                   (r, timeseries', calls') \<Rightarrow> (r, timeseries', calls @ calls'))))"

definition put_timeseries ::
  "collaborators \<Rightarrow> edge_factory \<Rightarrow> sample trace list \<Rightarrow> string option \<Rightarrow> string list option
    \<Rightarrow> string option \<Rightarrow> string option \<Rightarrow> (error + unit) \<times> sample trace list \<times> effect list" where
  "put_timeseries env self timeseries observatory channels type' interval =
     (let observatory = py_or observatory (self_observatory self);
          channels = py_or channels (self_channels self);
          type' = py_or type' (self_type self);
          interval = py_or interval (self_interval self);
          ric = RawInputClient (self_tag self) (self_host self) (self_port self)
                  (self_cwbhost self) (self_cwbport self)
      in if raises env ric then (Inl CollaboratorError, timeseries, [ric])
         else
           (case channels of
              None \<Rightarrow> (Inl TypeError, timeseries, [ric])
            | Some chs \<Rightarrow>
                (case put_channels env self observatory type' interval chs timeseries of
                   (Inl e, timeseries', calls) \<Rightarrow> (Inl e, timeseries', ric # calls)
                 | (Inr u, timeseries', calls) \<Rightarrow>
                     (if raises env Close
                      then (Inl CollaboratorError, timeseries', ric # calls @ [Close])
                      else (Inr (), timeseries', ric # calls @ [Close])))))"

section \<open>Reference collaborators and example inputs\<close>

text \<open>
  A collaborator environment to run the model on concrete inputs: no call raises,
  \<^verbatim>\<open>select\<close> compares the channel name, \<^verbatim>\<open>split\<close> cuts a trace into its runs of
  unmasked samples, \<^verbatim>\<open>slice\<close> trims a trace to the samples between two times,
  \<^verbatim>\<open>merge\<close> leaves the stream as it is, the waveserver returns nothing and the
  metadata setter writes the channel name.
\<close>

fun runs :: "nat \<Rightarrow> (nat \<times> sample list) option \<Rightarrow> sample list \<Rightarrow> (nat \<times> sample list) list" where
  "runs i cur [] = (case cur of None \<Rightarrow> [] | Some r \<Rightarrow> [r])"
| "runs i cur (x # xs) =
     (if x = Masked then (case cur of None \<Rightarrow> [] | Some r \<Rightarrow> [r]) @ runs (i + 1) None xs
      else runs (i + 1)
             (Some (case cur of None \<Rightarrow> (i, [x]) | Some (s, ys) \<Rightarrow> (s, ys @ [x]))) xs)"

definition split_trace :: "sample trace \<Rightarrow> sample trace list" where
  "split_trace trace =
     map (\<lambda>(s, ys). trace\<lparr>stats_starttime := stats_starttime trace + of_nat s * stats_delta trace,
                           trace_data := ys\<rparr>)
       (runs 0 None (trace_data trace))"

definition slice_trace :: "sample trace \<Rightarrow> rat \<Rightarrow> rat \<Rightarrow> sample trace" where
  "slice_trace trace starttime endtime =
     (let nskip = (if stats_delta trace = 0 then 0
                    else nat (round ((starttime - stats_starttime trace) / stats_delta trace)));
          upto = (if stats_delta trace = 0 then stats_npts trace
                  else nat (round ((endtime - stats_starttime trace) / stats_delta trace) + 1))
      in trace\<lparr>stats_starttime := stats_starttime trace + of_nat nskip * stats_delta trace,
               trace_data := drop nskip (take upto (trace_data trace))\<rparr>)"

definition quiet :: collaborators where
  "quiet =
     \<lparr>raises = (\<lambda>call. False),
      select_match = (\<lambda>channel trace. stats_channel trace = channel),
      split = (\<lambda>stream. concat (map split_trace stream)),
      slice = slice_trace,
      merge = (\<lambda>stream. stream),
      getWaveform = (\<lambda>network station location channel starttime endtime. []),
      set_metadata = (\<lambda>trace observatory channel type' interval.
                        trace\<lparr>stats_channel := channel\<rparr>)\<rparr>"

definition factory :: "string option \<Rightarrow> string option \<Rightarrow> edge_factory" where
  "factory interval locationCode =
     \<lparr>self_observatory = Some ''BOU'', self_channels = Some [''H''],
      self_type = Some ''variation'', self_interval = interval,
      self_locationCode = locationCode, self_tag = ''GeomagAlg'',
      self_host = Some ''localhost'', self_port = Some 2060,
      self_cwbhost = [], self_cwbport = 0\<rparr>"

definition trace_of :: "string \<Rightarrow> rat \<Rightarrow> rat \<Rightarrow> sample list \<Rightarrow> sample trace" where
  "trace_of channel starttime delta samples =
     \<lparr>stats_channel = channel, stats_starttime = starttime, stats_delta = delta,
      stats_endttime = None, trace_data = samples\<rparr>"

fun send_locations :: "effect list \<Rightarrow> string option list" where
  "send_locations [] = []"
| "send_locations (Send seedname nsamp samples starttime samplerate # calls) =
     sn_location seedname # send_locations calls"
| "send_locations (call # calls) = send_locations calls"

section \<open>Properties of the code mapper\<close>

lemma interval_code_valid:
  assumes "interval \<in> {Some ''daily'', Some ''hourly'', Some ''minute'', Some ''second''}"
  shows "\<exists>c. u_get_interval_code self interval = Inr [c]"
  using assms by (auto simp: u_get_interval_code_def)

text \<open>
  C6. With a configured override (a location code that is not \<^verbatim>\<open>None\<close>) the location
  is the override, whatever the type; with no override the type variation gives "R0",
  quasi-definitive "Q0", definitive "D0", and every other type gives \<^verbatim>\<open>None\<close>: a
  value, not an exception (the function has no error result at all).
\<close>

theorem location_code_override_else_type:
  "(self_locationCode self = Some ov \<longrightarrow>
      u_get_edge_location self observatory channel type' interval = Some ov) \<and>
   (self_locationCode self = None \<longrightarrow>
      u_get_edge_location self observatory channel type' interval =
        (if type' = Some ''variation'' then Some ''R0''
         else if type' = Some ''quasi-definitive'' then Some ''Q0''
         else if type' = Some ''definitive'' then Some ''D0''
         else None))"
  by (simp add: u_get_edge_location_def)

theorem location_code_override_else_type_witness:
  "u_get_edge_location (factory (Some ''minute'') (Some ''XX'')) (Some ''BOU'') ''H''
     (Some ''bogus'') (Some ''minute'') = Some ''XX'' \<and>
   u_get_edge_location (factory (Some ''minute'') None) (Some ''BOU'') ''H''
     (Some ''bogus'') (Some ''minute'') = None"
  using location_code_override_else_type
          [of "factory (Some ''minute'') (Some ''XX'')" "''XX''" "Some ''BOU''" "''H''"
              "Some ''bogus''" "Some ''minute''"]
        location_code_override_else_type
          [of "factory (Some ''minute'') None" "''XX''" "Some ''BOU''" "''H''"
              "Some ''bogus''" "Some ''minute''"]
  by (simp add: factory_def)

text \<open>
  C7. For an interval among daily, hourly, minute and second: a channel among D, E, F,
  H and Z gets the interval code followed by its fixed suffix, a string of three
  characters that starts with the interval code; any other channel raises the
  \<^verbatim>\<open>TimeseriesFactoryException\<close> for an unexpected channel code. (The interval is
  checked first: with an interval outside the four the interval's exception is raised,
  whatever the channel.)
\<close>

theorem channel_code_interval_then_suffix:
  assumes "interval \<in> {Some ''daily'', Some ''hourly'', Some ''minute'', Some ''second''}"
  shows "(channel \<in> {''D'', ''E'', ''F'', ''H'', ''Z''} \<longrightarrow>
           (\<exists>code. u_get_interval_code self interval = Inr code \<and>
              u_get_edge_channel self observatory channel type' interval =
                Inr (code @ spec_channel_suffix channel) \<and>
              length (code @ spec_channel_suffix channel) = 3 \<and>
              take 1 (code @ spec_channel_suffix channel) = code)) \<and>
         (channel \<notin> {''D'', ''E'', ''F'', ''H'', ''Z''} \<longrightarrow>
           u_get_edge_channel self observatory channel type' interval =
             Inl (UnexpectedChannelCode channel))"
proof -
  obtain c where c: "u_get_interval_code self interval = Inr [c]"
    using interval_code_valid [OF assms] by blast
  show ?thesis
    by (auto simp: c u_get_edge_channel_def spec_channel_suffix_def)
qed

theorem channel_code_interval_then_suffix_witness:
  "u_get_edge_channel (factory None None) (Some ''BOU'') ''H'' (Some ''definitive'')
     (Some ''minute'') = Inr ''MVH'' \<and>
   u_get_edge_channel (factory None None) (Some ''BOU'') ''X'' (Some ''definitive'')
     (Some ''minute'') = Inl (UnexpectedChannelCode ''X'')"
proof -
  have i: "Some ''minute'' \<in> {Some ''daily'', Some ''hourly'', Some ''minute'', Some ''second''}"
    by simp
  show ?thesis
    using channel_code_interval_then_suffix
            [OF i, of "''H''" "factory None None" "Some ''BOU''" "Some ''definitive''"]
          channel_code_interval_then_suffix
            [OF i, of "''X''" "factory None None" "Some ''BOU''" "Some ''definitive''"]
    by (simp add: u_get_interval_code_def spec_channel_suffix_def)
qed

section \<open>Properties of the read pipeline\<close>

text \<open>
  C4. A \<^verbatim>\<open>get_timeseries\<close> call whose start time is after its end time raises the
  \<^verbatim>\<open>TimeseriesFactoryException\<close> for the range, and no call has left the module:
  the list of effects is empty, so the waveserver was not queried.
\<close>

theorem get_timeseries_invalid_range:
  assumes "starttime > endtime"
  shows "get_timeseries env self starttime endtime observatory channels type' interval =
           (Inl (StarttimeBeforeEndtime starttime endtime), []) \<and>
         is_TimeseriesFactoryException (StarttimeBeforeEndtime starttime endtime)"
  using assms by (simp add: get_timeseries_def Let_def)

theorem get_timeseries_invalid_range_witness:
  "get_timeseries quiet (factory (Some ''minute'') None) 120 60 None None None None =
     (Inl (StarttimeBeforeEndtime 120 60), [])"
proof -
  have h: "(120::rat) > 60" by simp
  show ?thesis
    using get_timeseries_invalid_range [OF h, of quiet "factory (Some ''minute'') None"
            None None None None]
    by simp
qed

section \<open>Properties of the numeric codec\<close>

lemma double_1001: "trunc (round_double (round_double (1001 / 1000) * 1000)) = 1000"
  by code_simp

text \<open>
  C8. Decoding the stored integer 1001 and encoding the result gives 1000: the double
  nearest to 1001/1000 is below it, the product with 1000 rounds to the double just
  below 1001, and the cast truncates.
\<close>

theorem decode_encode_1001:
  "map (\<lambda>trace. trace_data (u_convert_trace_to_int (factory (Some ''second'') None) trace))
     (u_convert_trace_to_decimal (factory (Some ''second'') None)
        [trace_of ''H'' 0 1 [Num 1001]]) = [[IntVal 1000]]"
  by (simp add: u_convert_trace_to_decimal_def u_convert_trace_to_int_def trace_of_def
        double_1001)

section \<open>Properties of the gap reconciler\<close>

lemma clean_trace_covering:
  assumes "stats_starttime trace \<le> starttime" and "endtime \<le> stats_endtime trace"
  shows "u_clean_trace trace starttime endtime = Inr trace"
  using assms by (simp add: u_clean_trace_def pad_front_def pad_back_def Let_def)

text \<open>
  C9. On a stream whose traces all start at or before the requested start and end at or
  after the requested end, \<^verbatim>\<open>_clean_timeseries\<close> changes nothing: every trace keeps
  its samples, its start time and its sample interval, hence its end time.
\<close>

theorem clean_timeseries_noop_when_covering:
  assumes "\<forall>trace \<in> set timeseries.
             stats_starttime trace \<le> starttime \<and> endtime \<le> stats_endtime trace"
  shows "u_clean_timeseries self timeseries starttime endtime = Inr timeseries"
  using assms by (induction timeseries) (simp_all add: clean_trace_covering)

theorem clean_timeseries_noop_when_covering_witness:
  "u_clean_timeseries (factory (Some ''second'') None)
     [trace_of ''H'' 10 1 [Num 1, Num 2, NaN, Num 4]] 10 13 =
   Inr [trace_of ''H'' 10 1 [Num 1, Num 2, NaN, Num 4]]"
proof -
  have h: "\<forall>trace \<in> set [trace_of ''H'' 10 1 [Num 1, Num 2, NaN, Num 4]].
             stats_starttime trace \<le> 10 \<and> 13 \<le> stats_endtime trace"
    by (simp add: trace_of_def stats_endtime_def stats_npts_def)
  show ?thesis
    using clean_timeseries_noop_when_covering [OF h] by simp
qed

text \<open>
  C3. A trace of two samples, one tenth of a second apart, that starts three tenths of
  a second after the requested start (the float64 values of 0.1 and 0.3) lacks three
  samples, and three is the rounded quotient of the specification. The float64
  quotient is just below 3 and \<^verbatim>\<open>int\<close> truncates it: \<^verbatim>\<open>_clean_timeseries\<close>
  prepends two samples and sets the start time to the requested start. Every sample
  of the trace is then one interval earlier than it was, and the trace ends before the
  requested end, which was its own end time.
\<close>

theorem clean_trace_float_quotient_truncated:
  "u_clean_trace
     (trace_of ''H'' (round_double (3 / 10)) (round_double (1 / 10)) [Num 5, Num 6])
     0 (round_double (3 / 10) + round_double (1 / 10)) =
   Inr (trace_of ''H'' 0 (round_double (1 / 10)) [NaN, NaN, Num 5, Num 6]) \<and>
   spec_gap_count (round_double (3 / 10) - 0) (round_double (1 / 10)) = 3 \<and>
   stats_endtime (trace_of ''H'' 0 (round_double (1 / 10)) [NaN, NaN, Num 5, Num 6])
     < round_double (3 / 10) + round_double (1 / 10)"
  by code_simp

section \<open>Properties of the write pipeline\<close>

lemma send_locations_append: "send_locations (xs @ ys) = send_locations xs @ send_locations ys"
  by (induction xs rule: send_locations.induct) simp_all

lemma py_or_idem: "py_or x (py_or x y) = py_or x y"
  by (simp add: py_or_def split: option.splits)

lemma put_window_calls:
  assumes "put_window env self trace station edge_channel network totalsamps timeoffset
             samplerate i locals = (r, calls)"
  shows "\<exists>sn n d st. calls = [Send sn n d st samplerate] \<and>
           sn_location sn = py_or (self_locationCode self) (l_location locals) \<and>
           (\<forall>locals'. r = Inr locals' \<longrightarrow>
              l_location locals' = py_or (self_locationCode self) (l_location locals))"
  using assms
  by (auto simp: put_window_def Let_def create_seedname_def split: if_splits)

lemma put_windows_Inl:
  assumes "put_window env self trace station edge_channel network totalsamps timeoffset
             samplerate i locals = (Inl e, calls1)"
  shows "put_windows env self trace station edge_channel network totalsamps timeoffset
           samplerate (i # rest) locals = (Inl e, calls1)"
  by (simp add: assms)

lemma put_windows_Inr:
  assumes "put_window env self trace station edge_channel network totalsamps timeoffset
             samplerate i locals = (Inr locals', calls1)"
    and "put_windows env self trace station edge_channel network totalsamps timeoffset
             samplerate rest locals' = (r2, calls2)"
  shows "put_windows env self trace station edge_channel network totalsamps timeoffset
           samplerate (i # rest) locals = (r2, calls1 @ calls2)"
  by (simp add: assms)

lemma put_windows_sends:
  assumes "put_windows env self trace station edge_channel network totalsamps timeoffset
             samplerate idx locals = (r, calls)"
  shows "(\<forall>c \<in> set calls. is_Send c) \<and>
         (\<forall>l \<in> set (send_locations calls).
            l = py_or (self_locationCode self) (l_location locals))"
  using assms
proof (induction idx arbitrary: locals r calls)
  case Nil
  then show ?case by simp
next
  case (Cons i rest)
  obtain r1 calls1 where w: "put_window env self trace station edge_channel network totalsamps
      timeoffset samplerate i locals = (r1, calls1)"
    by (cases "put_window env self trace station edge_channel network totalsamps
      timeoffset samplerate i locals") blast
  from put_window_calls [OF w] obtain sn n d st where
    c1: "calls1 = [Send sn n d st samplerate]" and
    l1: "sn_location sn = py_or (self_locationCode self) (l_location locals)" and
    n1: "\<forall>locals'. r1 = Inr locals' \<longrightarrow>
           l_location locals' = py_or (self_locationCode self) (l_location locals)"
    by blast
  show ?case
  proof (cases r1)
    case (Inl e)
    from w Inl have "put_windows env self trace station edge_channel network totalsamps
        timeoffset samplerate (i # rest) locals = (Inl e, calls1)"
      by (simp only: put_windows_Inl)
    with Cons.prems have "calls = calls1" by (simp only: prod.inject)
    with c1 l1 show ?thesis by simp
  next
    case (Inr locals')
    obtain r2 calls2 where rec: "put_windows env self trace station edge_channel network
        totalsamps timeoffset samplerate rest locals' = (r2, calls2)"
      by (cases "put_windows env self trace station edge_channel network
        totalsamps timeoffset samplerate rest locals'") blast
    from n1 Inr have loc: "l_location locals' = py_or (self_locationCode self) (l_location locals)"
      by simp
    from Cons.IH [OF rec] have
      ih: "(\<forall>c \<in> set calls2. is_Send c) \<and>
           (\<forall>l \<in> set (send_locations calls2).
              l = py_or (self_locationCode self) (l_location locals))"
      by (simp only: loc py_or_idem)
    from w Inr rec have "put_windows env self trace station edge_channel network totalsamps
        timeoffset samplerate (i # rest) locals = (r2, calls1 @ calls2)"
      by (simp only: put_windows_Inr)
    with Cons.prems have "calls = calls1 @ calls2" by (simp only: prod.inject)
    with c1 l1 ih show ?thesis by (simp add: send_locations_append)
  qed
qed

lemma ceil_index_lt:
  assumes "0 < N" and "k < (tot + N - 1) div N"
  shows "k * N < (tot::nat)"
proof -
  from assms(2) have "Suc k \<le> (tot + N - 1) div N" by simp
  with assms(1) have "Suc k * N \<le> tot + N - 1"
    by (simp only: less_eq_div_iff_mult_less_eq)
  with assms(1) show ?thesis by simp
qed

lemma put_window_ok:
  assumes "\<forall>call. \<not> raises env call"
  shows "put_window env self trace station edge_channel network totalsamps timeoffset
           samplerate i locals =
         (Inr \<lparr>l_location = py_or (self_locationCode self) (l_location locals),
               l_nsamp = min (l_nsamp locals) (totalsamps - i),
               l_starttime = l_starttime locals
                 + of_nat (min (l_nsamp locals) (totalsamps - i)) * of_nat timeoffset,
               l_seedname = Some (create_seedname station edge_channel
                 (py_or (self_locationCode self) (l_location locals)) network)\<rparr>,
          [Send (create_seedname station edge_channel
                   (py_or (self_locationCode self) (l_location locals)) network)
             (min (l_nsamp locals) (totalsamps - i))
             (trace_data (u_convert_trace_to_int self
                (slice env trace (l_starttime locals)
                   (l_starttime locals
                      + (of_nat (min (l_nsamp locals) (totalsamps - i)) - 1)
                        * of_nat timeoffset))))
             (l_starttime locals) samplerate])"
proof -
  have m: "(if totalsamps - i < l_nsamp locals then totalsamps else i + l_nsamp locals) - i
             = min (l_nsamp locals) (totalsamps - i)"
    by (simp add: min_def)
  show ?thesis
    unfolding put_window_def Let_def m using assms by simp
qed

lemma put_windows_closed:
  assumes nr: "\<forall>call. \<not> raises env call" and N: "0 < N"
    and loc: "py_or (self_locationCode self) location = location"
  shows "l_location locals = location \<Longrightarrow> l_nsamp locals = N \<Longrightarrow>
         l_starttime locals = T0 + of_nat (a * N) * of_nat off \<Longrightarrow>
         \<exists>locals'.
           put_windows env self trace station edge_channel network tot off sr
             (map (\<lambda>k. 0 + k * N) [a ..< (tot + N - 1) div N]) locals =
           (Inr locals',
            map (\<lambda>k. Send (create_seedname station edge_channel location network)
                        (min N (tot - k * N))
                        (trace_data (u_convert_trace_to_int self
                           (slice env trace (T0 + of_nat (k * N) * of_nat off)
                              (T0 + of_nat (k * N) * of_nat off
                                 + (of_nat (min N (tot - k * N)) - 1) * of_nat off))))
                        (T0 + of_nat (k * N) * of_nat off) sr)
              [a ..< (tot + N - 1) div N]) \<and>
           (a < (tot + N - 1) div N \<longrightarrow>
              l_seedname locals' =
                Some (create_seedname station edge_channel location network))"
proof (induction "(tot + N - 1) div N - a" arbitrary: a locals)
  case 0
  then have "[a ..< (tot + N - 1) div N] = []" by simp
  then show ?case using 0 by simp
next
  case (Suc n)
  let ?m = "(tot + N - 1) div N"
  let ?send = "\<lambda>k. Send (create_seedname station edge_channel location network)
                        (min N (tot - k * N))
                        (trace_data (u_convert_trace_to_int self
                           (slice env trace (T0 + of_nat (k * N) * of_nat off)
                              (T0 + of_nat (k * N) * of_nat off
                                 + (of_nat (min N (tot - k * N)) - 1) * of_nat off))))
                        (T0 + of_nat (k * N) * of_nat off) sr"
  from Suc.hyps(2) have am: "a < ?m" by simp
  then have upt: "[a ..< ?m] = a # [Suc a ..< ?m]" by (simp add: upt_conv_Cons)
  let ?ns = "min N (tot - a * N)"
  let ?sn = "create_seedname station edge_channel location network"
  let ?l1 = "\<lparr>l_location = location, l_nsamp = ?ns,
              l_starttime = l_starttime locals + of_nat ?ns * of_nat off,
              l_seedname = Some ?sn\<rparr>"
  have w: "put_window env self trace station edge_channel network tot off sr (0 + a * N)
             locals = (Inr ?l1, [?send a])"
    using put_window_ok [OF nr, of self trace station edge_channel network tot off sr
            "0 + a * N" locals] Suc.prems loc
    by simp
  show ?case
  proof (cases "Suc a < ?m")
    case True
    from ceil_index_lt [OF N True] have "N \<le> tot - a * N" by simp
    then have ns: "?ns = N" by simp
    have p0: "l_location ?l1 = location" by simp
    have p1: "l_nsamp ?l1 = N" using ns by simp
    have p2: "l_starttime ?l1 = T0 + of_nat (Suc a * N) * of_nat off"
      using ns Suc.prems(3) by (simp add: algebra_simps)
    from Suc.hyps(2) have n: "n = ?m - Suc a" by simp
    from Suc.hyps(1) [OF n p0 p1 p2] obtain locals' where
      r: "put_windows env self trace station edge_channel network tot off sr
            (map (\<lambda>k. 0 + k * N) [Suc a ..< ?m]) ?l1
          = (Inr locals', map ?send [Suc a ..< ?m])" and
      sr: "l_seedname locals' = Some ?sn"
      using True by blast
    have "put_windows env self trace station edge_channel network tot off sr
            ((0 + a * N) # map (\<lambda>k. 0 + k * N) [Suc a ..< ?m]) locals
          = (Inr locals', [?send a] @ map ?send [Suc a ..< ?m])"
      by (rule put_windows_Inr [OF w r])
    then have "put_windows env self trace station edge_channel network tot off sr
            (map (\<lambda>k. 0 + k * N) [a ..< ?m]) locals
          = (Inr locals', map ?send [a ..< ?m])"
      by (simp only: upt list.map append.simps)
    with sr show ?thesis by blast
  next
    case False
    with am have e: "[Suc a ..< ?m] = []" by simp
    have r: "put_windows env self trace station edge_channel network tot off sr
               (map (\<lambda>k. 0 + k * N) [Suc a ..< ?m]) ?l1 = (Inr ?l1, [])"
      by (simp only: e list.map put_windows.simps(1))
    have "put_windows env self trace station edge_channel network tot off sr
            ((0 + a * N) # map (\<lambda>k. 0 + k * N) [Suc a ..< ?m]) locals
          = (Inr ?l1, [?send a] @ [])"
      by (rule put_windows_Inr [OF w r])
    then have "put_windows env self trace station edge_channel network tot off sr
            (map (\<lambda>k. 0 + k * N) [a ..< ?m]) locals
          = (Inr ?l1, map ?send [a ..< ?m])"
      by (simp only: upt e list.map append.simps)
    moreover have "l_seedname ?l1 = Some ?sn" by simp
    ultimately show ?thesis by blast
  qed
qed

lemma py_or_edge_location:
  "py_or (self_locationCode self) (u_get_edge_location self observatory channel type' interval)
     = u_get_edge_location self observatory channel type' interval"
  by (simp add: py_or_def u_get_edge_location_def split: option.splits)

lemma put_trace_windows_calls:
  assumes "put_trace_windows env self trace station edge_channel location network nsamp
             timeoffset samplerate = (r, calls)"
  shows "(\<forall>c \<in> set calls. is_Send c \<or> is_Forceout c) \<and>
         (\<forall>l \<in> set (send_locations calls). l = py_or (self_locationCode self) location)"
proof -
  let ?init = "\<lparr>l_location = location, l_nsamp = nsamp,
                 l_starttime = stats_starttime trace, l_seedname = None\<rparr>"
  obtain r1 calls1 where w: "put_windows env self trace station edge_channel network
      (length (trace_data trace)) timeoffset samplerate
      (xrange 0 (length (trace_data trace)) nsamp) ?init = (r1, calls1)"
    by (cases "put_windows env self trace station edge_channel network
      (length (trace_data trace)) timeoffset samplerate
      (xrange 0 (length (trace_data trace)) nsamp) ?init") blast
  from put_windows_sends [OF w] have
    s: "(\<forall>c \<in> set calls1. is_Send c) \<and>
        (\<forall>l \<in> set (send_locations calls1). l = py_or (self_locationCode self) location)"
    by simp
  from assms w have "calls = calls1 \<or> (\<exists>sn. calls = calls1 @ [Forceout sn])"
    by (auto simp: put_trace_windows_def Let_def split: sum.splits option.splits if_splits)
  with s show ?thesis by (auto simp: send_locations_append)
qed

lemma put_trace_calls:
  assumes "u_put_trace env self trace observatory channel type' interval = (r, calls)"
  shows "(\<forall>c \<in> set calls. is_Send c \<or> is_Forceout c) \<and>
         (\<forall>l \<in> set (send_locations calls).
            l = u_get_edge_location self observatory channel type' interval) \<and>
         (self_interval self \<noteq> Some ''second'' \<and> self_interval self \<noteq> Some ''minute''
            \<longrightarrow> calls = [])"
proof (cases "u_get_edge_channel self observatory channel type' interval")
  case (Inl e)
  with assms show ?thesis by (simp add: u_put_trace_def Let_def)
next
  case (Inr edge_channel)
  show ?thesis
  proof (cases "self_interval self = Some ''second'' \<or> self_interval self = Some ''minute''")
    case False
    with assms Inr show ?thesis by (auto simp: u_put_trace_def Let_def)
  next
    case True
    with assms Inr obtain nsamp timeoffset samplerate where
      "put_trace_windows env self trace
         (u_get_edge_station self observatory channel type' interval) edge_channel
         (u_get_edge_location self observatory channel type' interval)
         (u_get_edge_network self observatory channel type' interval)
         nsamp timeoffset samplerate = (r, calls)"
      by (auto simp: u_put_trace_def Let_def split: if_splits)
    from put_trace_windows_calls [OF this] True show ?thesis
      by (auto simp: py_or_edge_location)
  qed
qed

lemma put_trace_empty_override:
  "u_put_trace quiet (factory (Some ''second'') (Some [])) (trace_of ''H'' 0 1 [Num 1])
     (Some ''BOU'') ''H'' (Some ''variation'') (Some ''second'') =
   (Inr (),
    [Send \<lparr>sn_station = Some ''BOU'', sn_channel = ''SVH'', sn_location = Some [],
           sn_network = ''NT''\<rparr> 1 [IntVal 1000] 0 1,
     Forceout \<lparr>sn_station = Some ''BOU'', sn_channel = ''SVH'', sn_location = Some [],
           sn_network = ''NT''\<rparr>])"
  by code_simp

text \<open>
  C10, as the code has it. With the empty string as the configured location code,
  \<^verbatim>\<open>_get_edge_location\<close> returns the empty string, and the resolution in the loop of
  \<^verbatim>\<open>_put_trace\<close>, \<^verbatim>\<open>self.locationCode or location\<close>, falls back to \<^verbatim>\<open>location\<close>,
  which already is that empty string: every window is sent with the empty location
  code. The two places agree, and the location code of the type is never computed.
\<close>

theorem empty_override_reaches_every_window:
  assumes "self_locationCode self = Some []"
    and "u_put_trace env self trace observatory channel type' interval = (r, calls)"
  shows "u_get_edge_location self observatory channel type' interval = Some [] \<and>
         py_or (self_locationCode self)
           (u_get_edge_location self observatory channel type' interval) = Some [] \<and>
         (\<forall>l \<in> set (send_locations calls). l = Some [])"
proof -
  have loc: "u_get_edge_location self observatory channel type' interval = Some []"
    using assms(1) by (simp add: u_get_edge_location_def)
  have "py_or (self_locationCode self)
          (u_get_edge_location self observatory channel type' interval) = Some []"
    using py_or_edge_location [of self observatory channel type' interval] loc by simp
  moreover have "\<forall>l \<in> set (send_locations calls). l = Some []"
    using put_trace_calls [OF assms(2)] loc by simp
  ultimately show ?thesis using loc by simp
qed

theorem empty_override_reaches_every_window_witness:
  "u_get_edge_location (factory (Some ''second'') (Some [])) (Some ''BOU'') ''H''
     (Some ''variation'') (Some ''second'') = Some [] \<and>
   send_locations
     [Send \<lparr>sn_station = Some ''BOU'', sn_channel = ''SVH'', sn_location = Some [],
            sn_network = ''NT''\<rparr> 1 [IntVal 1000] 0 1,
      Forceout \<lparr>sn_station = Some ''BOU'', sn_channel = ''SVH'', sn_location = Some [],
            sn_network = ''NT''\<rparr>] = [Some []]"
proof -
  have h: "self_locationCode (factory (Some ''second'') (Some [])) = Some []"
    by (simp add: factory_def)
  show ?thesis
    using empty_override_reaches_every_window [OF h put_trace_empty_override]
    by simp
qed

text \<open>
  C10 as the specification states it fails: with the empty override and the type
  variation, the window of a one-sample trace is sent with the empty location code,
  not with "R0", the location code of the type.
\<close>

theorem empty_override_not_discarded_counterexample:
  "send_locations
     (snd (u_put_trace quiet (factory (Some ''second'') (Some []))
        (trace_of ''H'' 0 1 [Num 1]) (Some ''BOU'') ''H'' (Some ''variation'')
        (Some ''second''))) = [Some []] \<and>
   u_get_edge_location (factory (Some ''second'') None) (Some ''BOU'') ''H''
     (Some ''variation'') (Some ''second'') = Some ''R0''"
proof -
  have "u_get_edge_location (factory (Some ''second'') None) (Some ''BOU'') ''H''
          (Some ''variation'') (Some ''second'') = Some ''R0''"
    by (simp add: u_get_edge_location_def factory_def)
  then show ?thesis
    by (simp add: put_trace_empty_override)
qed

lemma put_trace_windows_closed:
  assumes nr: "\<forall>call. \<not> raises env call" and N: "0 < N"
    and ne: "trace_data trace \<noteq> []"
    and loc: "py_or (self_locationCode self) location = location"
  shows "put_trace_windows env self trace station edge_channel location network N off sr =
         (Inr (),
          map (\<lambda>k. Send (create_seedname station edge_channel location network)
                      (min N (length (trace_data trace) - k * N))
                      (trace_data (u_convert_trace_to_int self
                         (slice env trace (stats_starttime trace + of_nat (k * N) * of_nat off)
                            (stats_starttime trace + of_nat (k * N) * of_nat off
                               + (of_nat (min N (length (trace_data trace) - k * N)) - 1)
                                 * of_nat off))))
                      (stats_starttime trace + of_nat (k * N) * of_nat off) sr)
            [0 ..< (length (trace_data trace) + N - 1) div N]
          @ [Forceout (create_seedname station edge_channel location network)])"
proof -
  let ?tot = "length (trace_data trace)"
  let ?init = "\<lparr>l_location = location, l_nsamp = N,
                 l_starttime = stats_starttime trace, l_seedname = None\<rparr>"
  let ?sn = "create_seedname station edge_channel location network"
  have p0: "l_location ?init = location" by simp
  have p1: "l_nsamp ?init = N" by simp
  have p2: "l_starttime ?init = stats_starttime trace + of_nat (0 * N) * of_nat off" by simp
  from ne have "Suc 0 \<le> ?tot" by (cases "trace_data trace") simp_all
  then have "N \<le> ?tot + N - 1" by arith
  with N have pos: "0 < (?tot + N - 1) div N" by (simp add: div_greater_zero_iff)
  from put_windows_closed [OF nr N loc p0 p1 p2,
         of trace station edge_channel network ?tot sr] pos
  obtain locals' where
    r: "put_windows env self trace station edge_channel network ?tot off sr
          (map (\<lambda>k. 0 + k * N) [0 ..< (?tot + N - 1) div N]) ?init =
        (Inr locals',
         map (\<lambda>k. Send ?sn (min N (?tot - k * N))
                     (trace_data (u_convert_trace_to_int self
                        (slice env trace (stats_starttime trace + of_nat (k * N) * of_nat off)
                           (stats_starttime trace + of_nat (k * N) * of_nat off
                              + (of_nat (min N (?tot - k * N)) - 1) * of_nat off))))
                     (stats_starttime trace + of_nat (k * N) * of_nat off) sr)
           [0 ..< (?tot + N - 1) div N])" and
    sn: "l_seedname locals' = Some ?sn"
    by blast
  have x: "xrange 0 ?tot N = map (\<lambda>k. 0 + k * N) [0 ..< (?tot + N - 1) div N]"
    by (simp add: xrange_def)
  show ?thesis
    unfolding put_trace_windows_def Let_def x r using sn nr by simp
qed

lemma put_trace_closed:
  assumes nr: "\<forall>call. \<not> raises env call"
    and ch: "u_get_edge_channel self observatory channel type' interval = Inr edge_channel"
    and ne: "trace_data trace \<noteq> []"
    and iv: "self_interval self = Some ''second'' \<and> N = 3600 \<and> off = 1 \<and> sr = 1 \<or>
             self_interval self = Some ''minute'' \<and> N = 1440 \<and> off = 60 \<and>
               sr = round_double (1 / 60)"
  shows "u_put_trace env self trace observatory channel type' interval =
         (Inr (),
          map (\<lambda>k. Send (create_seedname
                           (u_get_edge_station self observatory channel type' interval)
                           edge_channel
                           (u_get_edge_location self observatory channel type' interval)
                           (u_get_edge_network self observatory channel type' interval))
                      (min N (length (trace_data trace) - k * N))
                      (trace_data (u_convert_trace_to_int self
                         (slice env trace (stats_starttime trace + of_nat (k * N) * of_nat off)
                            (stats_starttime trace + of_nat (k * N) * of_nat off
                               + (of_nat (min N (length (trace_data trace) - k * N)) - 1)
                                 * of_nat off))))
                      (stats_starttime trace + of_nat (k * N) * of_nat off) sr)
            [0 ..< (length (trace_data trace) + N - 1) div N]
          @ [Forceout (create_seedname
                         (u_get_edge_station self observatory channel type' interval)
                         edge_channel
                         (u_get_edge_location self observatory channel type' interval)
                         (u_get_edge_network self observatory channel type' interval))])"
proof -
  have N: "0 < N" using iv by auto
  from iv have u: "u_put_trace env self trace observatory channel type' interval =
      put_trace_windows env self trace
        (u_get_edge_station self observatory channel type' interval) edge_channel
        (u_get_edge_location self observatory channel type' interval)
        (u_get_edge_network self observatory channel type' interval) N off sr"
    by (auto simp: u_put_trace_def Let_def ch HOURSECONDS_def DAYMINUTES_def)
  show ?thesis
    unfolding u
    by (rule put_trace_windows_closed [OF nr N ne py_or_edge_location])
qed

lemma upt_0_7: "[0 ..< 7] = [0, 1, 2, 3, 4, 5, 6 :: nat]"
  by code_simp

text \<open>
  C5. The chunker follows the interval of the factory, not the interval of the call
  and not the rate of the trace. On a factory whose interval is "minute", a put with
  the interval "second" of a second-rate trace of 10000 samples that starts at \<open>T0\<close>
  makes, when no transport call raises, seven sends under the channel code of second
  data. They declare 1440, 1440, 1440, 1440, 1440, 1440 and 1360 samples, start 86400
  seconds apart, and each carries the slice of the trace from its start time to 60
  seconds times its sample count less one later: the first slice spans 86340 seconds.
  The specification has three windows of 3600, 3600 and 2800 samples that start at
  \<open>T0\<close>, \<open>T0 + 3600\<close> and \<open>T0 + 7200\<close>.
\<close>

theorem put_trace_chunks_by_factory_interval:
  assumes "\<forall>call. \<not> raises env call"
  shows "u_put_trace env (factory (Some ''minute'') None)
          (trace_of ''H'' T0 1 (replicate 10000 (Num 1))) (Some ''BOU'') ''H''
          (Some ''variation'') (Some ''second'') =
        (Inr (),
         [Send \<lparr>sn_station = Some ''BOU'', sn_channel = ''SVH'', sn_location = Some ''R0'',
                sn_network = ''NT''\<rparr> 1440
            (trace_data (u_convert_trace_to_int (factory (Some ''minute'') None)
               (slice env (trace_of ''H'' T0 1 (replicate 10000 (Num 1))) T0 (T0 + 86340))))
            T0 (round_double (1 / 60)),
          Send \<lparr>sn_station = Some ''BOU'', sn_channel = ''SVH'', sn_location = Some ''R0'',
                sn_network = ''NT''\<rparr> 1440
            (trace_data (u_convert_trace_to_int (factory (Some ''minute'') None)
               (slice env (trace_of ''H'' T0 1 (replicate 10000 (Num 1))) (T0 + 86400) (T0 + 172740))))
            (T0 + 86400) (round_double (1 / 60)),
          Send \<lparr>sn_station = Some ''BOU'', sn_channel = ''SVH'', sn_location = Some ''R0'',
                sn_network = ''NT''\<rparr> 1440
            (trace_data (u_convert_trace_to_int (factory (Some ''minute'') None)
               (slice env (trace_of ''H'' T0 1 (replicate 10000 (Num 1))) (T0 + 172800) (T0 + 259140))))
            (T0 + 172800) (round_double (1 / 60)),
          Send \<lparr>sn_station = Some ''BOU'', sn_channel = ''SVH'', sn_location = Some ''R0'',
                sn_network = ''NT''\<rparr> 1440
            (trace_data (u_convert_trace_to_int (factory (Some ''minute'') None)
               (slice env (trace_of ''H'' T0 1 (replicate 10000 (Num 1))) (T0 + 259200) (T0 + 345540))))
            (T0 + 259200) (round_double (1 / 60)),
          Send \<lparr>sn_station = Some ''BOU'', sn_channel = ''SVH'', sn_location = Some ''R0'',
                sn_network = ''NT''\<rparr> 1440
            (trace_data (u_convert_trace_to_int (factory (Some ''minute'') None)
               (slice env (trace_of ''H'' T0 1 (replicate 10000 (Num 1))) (T0 + 345600) (T0 + 431940))))
            (T0 + 345600) (round_double (1 / 60)),
          Send \<lparr>sn_station = Some ''BOU'', sn_channel = ''SVH'', sn_location = Some ''R0'',
                sn_network = ''NT''\<rparr> 1440
            (trace_data (u_convert_trace_to_int (factory (Some ''minute'') None)
               (slice env (trace_of ''H'' T0 1 (replicate 10000 (Num 1))) (T0 + 432000) (T0 + 518340))))
            (T0 + 432000) (round_double (1 / 60)),
          Send \<lparr>sn_station = Some ''BOU'', sn_channel = ''SVH'', sn_location = Some ''R0'',
                sn_network = ''NT''\<rparr> 1360
            (trace_data (u_convert_trace_to_int (factory (Some ''minute'') None)
               (slice env (trace_of ''H'' T0 1 (replicate 10000 (Num 1))) (T0 + 518400) (T0 + 599940))))
            (T0 + 518400) (round_double (1 / 60)),
          Forceout \<lparr>sn_station = Some ''BOU'', sn_channel = ''SVH'', sn_location = Some ''R0'',
                sn_network = ''NT''\<rparr>])"
proof -
  let ?self = "factory (Some ''minute'') None"
  let ?trace = "trace_of ''H'' T0 1 (replicate 10000 (Num 1))"
  have ch: "u_get_edge_channel ?self (Some ''BOU'') ''H'' (Some ''variation'')
              (Some ''second'') = Inr ''SVH''"
    by (simp add: u_get_edge_channel_def u_get_interval_code_def)
  have ne: "trace_data ?trace \<noteq> []" by (simp add: trace_of_def)
  have iv: "self_interval ?self = Some ''second'' \<and> (1440::nat) = 3600 \<and> (60::nat) = 1 \<and>
              round_double (1 / 60) = 1 \<or>
            self_interval ?self = Some ''minute'' \<and> (1440::nat) = 1440 \<and> (60::nat) = 60 \<and>
              round_double (1 / 60) = round_double (1 / 60)"
    by (simp add: factory_def)
  have lc: "u_get_edge_location ?self (Some ''BOU'') ''H'' (Some ''variation'')
              (Some ''second'') = Some ''R0''"
    by (simp add: u_get_edge_location_def factory_def)
  have len: "length (trace_data ?trace) = 10000" and st: "stats_starttime ?trace = T0"
    by (simp_all add: trace_of_def)
  show ?thesis
    unfolding put_trace_closed [OF assms ch ne iv] len st
    by (simp add: lc upt_0_7 create_seedname_def u_get_edge_station_def
          u_get_edge_network_def add.commute)
qed

theorem put_trace_chunks_by_factory_interval_witness:
  "u_put_trace quiet (factory (Some ''minute'') None)
          (trace_of ''H'' 0 1 (replicate 10000 (Num 1))) (Some ''BOU'') ''H''
          (Some ''variation'') (Some ''second'') =
        (Inr (),
         [Send \<lparr>sn_station = Some ''BOU'', sn_channel = ''SVH'', sn_location = Some ''R0'',
                sn_network = ''NT''\<rparr> 1440
            (trace_data (u_convert_trace_to_int (factory (Some ''minute'') None)
               (slice quiet (trace_of ''H'' 0 1 (replicate 10000 (Num 1))) 0 86340)))
            0 (round_double (1 / 60)),
          Send \<lparr>sn_station = Some ''BOU'', sn_channel = ''SVH'', sn_location = Some ''R0'',
                sn_network = ''NT''\<rparr> 1440
            (trace_data (u_convert_trace_to_int (factory (Some ''minute'') None)
               (slice quiet (trace_of ''H'' 0 1 (replicate 10000 (Num 1))) 86400 172740)))
            86400 (round_double (1 / 60)),
          Send \<lparr>sn_station = Some ''BOU'', sn_channel = ''SVH'', sn_location = Some ''R0'',
                sn_network = ''NT''\<rparr> 1440
            (trace_data (u_convert_trace_to_int (factory (Some ''minute'') None)
               (slice quiet (trace_of ''H'' 0 1 (replicate 10000 (Num 1))) 172800 259140)))
            172800 (round_double (1 / 60)),
          Send \<lparr>sn_station = Some ''BOU'', sn_channel = ''SVH'', sn_location = Some ''R0'',
                sn_network = ''NT''\<rparr> 1440
            (trace_data (u_convert_trace_to_int (factory (Some ''minute'') None)
               (slice quiet (trace_of ''H'' 0 1 (replicate 10000 (Num 1))) 259200 345540)))
            259200 (round_double (1 / 60)),
          Send \<lparr>sn_station = Some ''BOU'', sn_channel = ''SVH'', sn_location = Some ''R0'',
                sn_network = ''NT''\<rparr> 1440
            (trace_data (u_convert_trace_to_int (factory (Some ''minute'') None)
               (slice quiet (trace_of ''H'' 0 1 (replicate 10000 (Num 1))) 345600 431940)))
            345600 (round_double (1 / 60)),
          Send \<lparr>sn_station = Some ''BOU'', sn_channel = ''SVH'', sn_location = Some ''R0'',
                sn_network = ''NT''\<rparr> 1440
            (trace_data (u_convert_trace_to_int (factory (Some ''minute'') None)
               (slice quiet (trace_of ''H'' 0 1 (replicate 10000 (Num 1))) 432000 518340)))
            432000 (round_double (1 / 60)),
          Send \<lparr>sn_station = Some ''BOU'', sn_channel = ''SVH'', sn_location = Some ''R0'',
                sn_network = ''NT''\<rparr> 1360
            (trace_data (u_convert_trace_to_int (factory (Some ''minute'') None)
               (slice quiet (trace_of ''H'' 0 1 (replicate 10000 (Num 1))) 518400 599940)))
            518400 (round_double (1 / 60)),
          Forceout \<lparr>sn_station = Some ''BOU'', sn_channel = ''SVH'', sn_location = Some ''R0'',
                sn_network = ''NT''\<rparr>])"
proof -
  have nr: "\<forall>call. \<not> raises quiet call" by (simp add: quiet_def)
  show ?thesis
    using put_trace_chunks_by_factory_interval [OF nr, of 0] by simp
qed

lemma put_traces_Inl:
  assumes "u_put_trace env self trace observatory channel type' interval = (Inl e, calls1)"
  shows "put_traces env self observatory channel type' interval (trace # traces)
           = (Inl e, calls1)"
  by (simp add: assms)

lemma put_traces_Inr:
  assumes "u_put_trace env self trace observatory channel type' interval = (Inr u, calls1)"
    and "put_traces env self observatory channel type' interval traces = (r2, calls2)"
  shows "put_traces env self observatory channel type' interval (trace # traces)
           = (r2, calls1 @ calls2)"
  by (simp add: assms)

lemma put_traces_calls:
  assumes "put_traces env self observatory channel type' interval traces = (r, calls)"
  shows "(\<forall>c \<in> set calls. is_Send c \<or> is_Forceout c) \<and>
         (self_interval self \<noteq> Some ''second'' \<and> self_interval self \<noteq> Some ''minute''
            \<longrightarrow> calls = [])"
  using assms
proof (induction traces arbitrary: r calls)
  case Nil
  then show ?case by simp
next
  case (Cons trace traces)
  obtain r1 calls1 where t: "u_put_trace env self trace observatory channel type' interval
      = (r1, calls1)"
    by (cases "u_put_trace env self trace observatory channel type' interval") blast
  from put_trace_calls [OF t] have
    c1: "(\<forall>c \<in> set calls1. is_Send c \<or> is_Forceout c) \<and>
         (self_interval self \<noteq> Some ''second'' \<and> self_interval self \<noteq> Some ''minute''
            \<longrightarrow> calls1 = [])"
    by blast
  show ?case
  proof (cases r1)
    case (Inl e)
    from t Inl have "put_traces env self observatory channel type' interval (trace # traces)
        = (Inl e, calls1)"
      by (simp only: put_traces_Inl)
    with Cons.prems have "calls = calls1" by (simp only: prod.inject)
    with c1 show ?thesis by simp
  next
    case (Inr u)
    obtain r2 calls2 where rec: "put_traces env self observatory channel type' interval traces
        = (r2, calls2)"
      by (cases "put_traces env self observatory channel type' interval traces") blast
    from t Inr rec have "put_traces env self observatory channel type' interval
        (trace # traces) = (r2, calls1 @ calls2)"
      by (simp only: put_traces_Inr)
    with Cons.prems have "calls = calls1 @ calls2" by (simp only: prod.inject)
    with c1 Cons.IH [OF rec] show ?thesis by auto
  qed
qed

lemma put_channels_missing:
  assumes "length (select env timeseries channel) = 0"
    and "put_channels env self observatory type' interval channels timeseries
           = (r, timeseries', calls)"
  shows "put_channels env self observatory type' interval (channel # channels) timeseries
           = (r, timeseries', StderrMissingChannel channel # calls)"
  using assms by simp

lemma put_channels_Inl:
  assumes "length (select env timeseries channel) \<noteq> 0"
    and "put_traces env self observatory channel type' interval
           (split env (select env (u_convert_stream_to_masked env self timeseries channel)
              channel)) = (Inl e, calls1)"
  shows "put_channels env self observatory type' interval (channel # channels) timeseries
           = (Inl e, u_convert_stream_to_masked env self timeseries channel, calls1)"
  using assms by (simp add: Let_def)

lemma put_channels_Inr:
  assumes "length (select env timeseries channel) \<noteq> 0"
    and "put_traces env self observatory channel type' interval
           (split env (select env (u_convert_stream_to_masked env self timeseries channel)
              channel)) = (Inr u, calls1)"
    and "put_channels env self observatory type' interval channels
           (u_convert_stream_to_masked env self timeseries channel) = (r, timeseries', calls2)"
  shows "put_channels env self observatory type' interval (channel # channels) timeseries
           = (r, timeseries', calls1 @ calls2)"
  using assms by (simp add: Let_def)

lemma session_call_cases:
  "is_Send c \<or> is_Forceout c \<Longrightarrow> c \<noteq> Close \<and> \<not> is_RawInputClient c"
  by (cases c) simp_all

lemma put_channels_calls:
  assumes "put_channels env self observatory type' interval channels timeseries
             = (r, timeseries', calls)"
  shows "(\<forall>c \<in> set calls. c \<noteq> Close \<and> \<not> is_RawInputClient c) \<and>
         (self_interval self \<noteq> Some ''second'' \<and> self_interval self \<noteq> Some ''minute''
            \<longrightarrow> (\<forall>c \<in> set calls. \<not> is_Send c \<and> \<not> is_Forceout c))"
  using assms
proof (induction channels arbitrary: timeseries r timeseries' calls)
  case Nil
  then show ?case by simp
next
  case (Cons channel channels)
  let ?masked = "u_convert_stream_to_masked env self timeseries channel"
  show ?case
  proof (cases "length (select env timeseries channel) = 0")
    case True
    obtain r2 ts2 calls2 where rec: "put_channels env self observatory type' interval channels
        timeseries = (r2, ts2, calls2)"
      by (cases "put_channels env self observatory type' interval channels timeseries") blast
    from put_channels_missing [OF True rec] Cons.prems
    have "calls = StderrMissingChannel channel # calls2" by (simp only: prod.inject)
    with Cons.IH [OF rec] show ?thesis by simp
  next
    case False
    obtain r1 calls1 where t: "put_traces env self observatory channel type' interval
        (split env (select env ?masked channel)) = (r1, calls1)"
      by (cases "put_traces env self observatory channel type' interval
        (split env (select env ?masked channel))") blast
    from put_traces_calls [OF t] have
      c1: "(\<forall>c \<in> set calls1. is_Send c \<or> is_Forceout c) \<and>
           (self_interval self \<noteq> Some ''second'' \<and> self_interval self \<noteq> Some ''minute''
              \<longrightarrow> calls1 = [])"
      by blast
    then have c1': "\<forall>c \<in> set calls1. c \<noteq> Close \<and> \<not> is_RawInputClient c"
      using session_call_cases by blast
    show ?thesis
    proof (cases r1)
      case (Inl e)
      from t Inl have "put_traces env self observatory channel type' interval
          (split env (select env ?masked channel)) = (Inl e, calls1)"
        by simp
      from put_channels_Inl [OF False this] Cons.prems
      have "calls = calls1" by (simp only: prod.inject)
      with c1 c1' show ?thesis by auto
    next
      case (Inr u)
      obtain r2 ts2 calls2 where rec: "put_channels env self observatory type' interval
          channels ?masked = (r2, ts2, calls2)"
        by (cases "put_channels env self observatory type' interval channels ?masked") blast
      from t Inr have "put_traces env self observatory channel type' interval
          (split env (select env ?masked channel)) = (Inr u, calls1)"
        by simp
      from put_channels_Inr [OF False this rec] Cons.prems
      have "calls = calls1 @ calls2" by (simp only: prod.inject)
      with c1 c1' Cons.IH [OF rec] show ?thesis by auto
    qed
  qed
qed

lemma put_timeseries_shape:
  assumes "put_timeseries env self timeseries observatory channels type' interval
             = (r, timeseries', calls)"
  shows "\<exists>mid.
           (\<forall>c \<in> set mid. c \<noteq> Close \<and> \<not> is_RawInputClient c) \<and>
           (self_interval self \<noteq> Some ''second'' \<and> self_interval self \<noteq> Some ''minute''
              \<longrightarrow> (\<forall>c \<in> set mid. \<not> is_Send c \<and> \<not> is_Forceout c)) \<and>
           (r = Inr () \<and>
              calls = RawInputClient (self_tag self) (self_host self) (self_port self)
                        (self_cwbhost self) (self_cwbport self) # mid @ [Close] \<or>
            (\<exists>e. r = Inl e) \<and>
              (calls = RawInputClient (self_tag self) (self_host self) (self_port self)
                         (self_cwbhost self) (self_cwbport self) # mid \<or>
               raises env Close \<and>
               calls = RawInputClient (self_tag self) (self_host self) (self_port self)
                         (self_cwbhost self) (self_cwbport self) # mid @ [Close]))"
proof -
  let ?ric = "RawInputClient (self_tag self) (self_host self) (self_port self)
                (self_cwbhost self) (self_cwbport self)"
  let ?obs = "py_or observatory (self_observatory self)"
  let ?chs = "py_or channels (self_channels self)"
  let ?ty = "py_or type' (self_type self)"
  let ?ivl = "py_or interval (self_interval self)"
  show ?thesis
  proof (cases "raises env ?ric")
    case True
    with assms have "r = Inl CollaboratorError \<and> calls = [?ric]"
      by (simp add: put_timeseries_def Let_def)
    then show ?thesis by (intro exI [of _ "[]"]) simp
  next
    case nr: False
    show ?thesis
    proof (cases ?chs)
      case None
      with assms nr have "r = Inl TypeError \<and> calls = [?ric]"
        by (simp add: put_timeseries_def Let_def)
      then show ?thesis by (intro exI [of _ "[]"]) simp
    next
      case (Some chs)
      obtain r1 ts1 mid where pc: "put_channels env self ?obs ?ty ?ivl chs timeseries
          = (r1, ts1, mid)"
        by (cases "put_channels env self ?obs ?ty ?ivl chs timeseries") blast
      note inv = put_channels_calls [OF pc]
      have res: "(\<exists>e. r1 = Inl e \<and> r = Inl e \<and> calls = ?ric # mid) \<or>
                 (r1 = Inr () \<and> raises env Close \<and> r = Inl CollaboratorError \<and>
                    calls = ?ric # mid @ [Close]) \<or>
                 (r1 = Inr () \<and> \<not> raises env Close \<and> r = Inr () \<and>
                    calls = ?ric # mid @ [Close])"
        using assms nr Some pc
        by (cases r1) (auto simp: put_timeseries_def Let_def split: if_splits)
      with inv show ?thesis
        by (intro exI [of _ mid]) auto
    qed
  qed
qed


lemma put_missing_channel_hourly:
  "put_timeseries quiet (factory (Some ''hourly'') None)
     [trace_of ''Z'' 0 3600 [Num 1]] None None None None =
   (Inr (), [trace_of ''Z'' 0 3600 [Num 1]],
    [RawInputClient ''GeomagAlg'' (Some ''localhost'') (Some 2060) [] 0,
     StderrMissingChannel ''H'', Close])"
  by code_simp

text \<open>
  C1, as the code has it. \<^verbatim>\<open>put_timeseries\<close> constructs the \<^verbatim>\<open>RawInputClient\<close> first,
  whatever the interval: the construction is the first call of every put. When the
  interval of the call is the factory's own and is neither "second" nor "minute", no
  window is sent and nothing is forced out.
\<close>

theorem put_timeseries_opens_session_first:
  assumes "put_timeseries env self timeseries observatory channels type' interval
             = (r, timeseries', calls)"
  shows "(\<exists>rest. calls = RawInputClient (self_tag self) (self_host self) (self_port self)
                           (self_cwbhost self) (self_cwbport self) # rest) \<and>
         (py_or interval (self_interval self) = self_interval self \<and>
          self_interval self \<noteq> Some ''second'' \<and> self_interval self \<noteq> Some ''minute''
            \<longrightarrow> (\<forall>c \<in> set calls. \<not> is_Send c \<and> \<not> is_Forceout c))"
  using put_timeseries_shape [OF assms] by auto

theorem put_timeseries_opens_session_first_witness:
  "(\<exists>rest. [RawInputClient ''GeomagAlg'' (Some ''localhost'') (Some 2060) [] 0,
             StderrMissingChannel ''H'', Close] =
            RawInputClient ''GeomagAlg'' (Some ''localhost'') (Some 2060) [] 0 # rest) \<and>
   list_all (\<lambda>c. \<not> is_Send c \<and> \<not> is_Forceout c)
     (snd (snd (put_timeseries quiet (factory (Some ''hourly'') None)
        [trace_of ''Z'' 0 3600 [Num 1]] None None None None)))"
proof -
  have h: "py_or None (self_interval (factory (Some ''hourly'') None))
             = self_interval (factory (Some ''hourly'') None) \<and>
           self_interval (factory (Some ''hourly'') None) \<noteq> Some ''second'' \<and>
           self_interval (factory (Some ''hourly'') None) \<noteq> Some ''minute''"
    by (simp add: factory_def py_or_def)
  from put_timeseries_opens_session_first [OF put_missing_channel_hourly] h
  have "\<forall>c \<in> set [RawInputClient ''GeomagAlg'' (Some ''localhost'') (Some 2060) [] 0,
                      StderrMissingChannel ''H'', Close].
          \<not> is_Send c \<and> \<not> is_Forceout c"
    by blast
  then show ?thesis
    by (simp add: put_missing_channel_hourly)
qed

text \<open>
  C1 as the specification states it fails: a put of a daily trace with a factory whose
  interval is "daily" constructs the \<^verbatim>\<open>RawInputClient\<close> and then stops with the
  \<^verbatim>\<open>UnboundLocalError\<close> for \<^verbatim>\<open>nsamp\<close>; the session has been opened, it is not
  closed, and the error is not an exception of the module.
\<close>

theorem put_timeseries_daily_counterexample:
  "put_timeseries quiet (factory (Some ''daily'') None)
     [trace_of ''H'' 0 86400 [Num 1]] None None None None =
   (Inl (UnboundLocalError ''nsamp''), [trace_of ''H'' 0 86400 [Num 1]],
    [RawInputClient ''GeomagAlg'' (Some ''localhost'') (Some 2060) [] 0])"
  by code_simp

lemma put_one_present_one_missing:
  "put_timeseries quiet (factory (Some ''second'') None)
     [trace_of ''H'' 0 1 [Num 1]] None (Some [''H'', ''Z'']) None None =
   (Inr (), [trace_of ''H'' 0 1 [Num 1]],
    [RawInputClient ''GeomagAlg'' (Some ''localhost'') (Some 2060) [] 0,
     Send \<lparr>sn_station = Some ''BOU'', sn_channel = ''SVH'', sn_location = Some ''R0'',
            sn_network = ''NT''\<rparr> 1 [IntVal 1000] 0 1,
     Forceout \<lparr>sn_station = Some ''BOU'', sn_channel = ''SVH'', sn_location = Some ''R0'',
            sn_network = ''NT''\<rparr>,
     StderrMissingChannel ''Z'', Close])"
  by code_simp

text \<open>
  C2, as the code has it. A put that returns has constructed the \<^verbatim>\<open>RawInputClient\<close>
  once, as its first call, and has called \<^verbatim>\<open>close\<close> exactly once, as its last call;
  this includes the puts that skip a missing channel. A put that raises has not called
  \<^verbatim>\<open>close\<close> (unless it is \<^verbatim>\<open>close\<close> itself that raised): the source has no
  \<^verbatim>\<open>try\<close>/\<^verbatim>\<open>finally\<close> around the loop.
\<close>

theorem put_timeseries_closes_once_on_return:
  assumes "put_timeseries env self timeseries observatory channels type' interval
             = (r, timeseries', calls)"
  shows "(r = Inr () \<longrightarrow>
            (\<exists>rest. calls = RawInputClient (self_tag self) (self_host self) (self_port self)
                              (self_cwbhost self) (self_cwbport self) # rest \<and>
                    \<not> list_ex is_RawInputClient rest) \<and>
            count_list calls Close = 1 \<and> last calls = Close) \<and>
         ((\<exists>e. r = Inl e) \<and> \<not> raises env Close \<longrightarrow> count_list calls Close = 0)"
proof -
  let ?ric = "RawInputClient (self_tag self) (self_host self) (self_port self)
                (self_cwbhost self) (self_cwbport self)"
  from put_timeseries_shape [OF assms] obtain mid where
    m: "\<forall>c \<in> set mid. c \<noteq> Close \<and> \<not> is_RawInputClient c" and
    s: "r = Inr () \<and> calls = ?ric # mid @ [Close] \<or>
        (\<exists>e. r = Inl e) \<and>
          (calls = ?ric # mid \<or> raises env Close \<and> calls = ?ric # mid @ [Close])"
    by (elim exE conjE)
  from m have c0: "count_list mid Close = 0" by (simp add: count_list_0_iff) blast
  from m have r0: "\<not> list_ex is_RawInputClient (mid @ [Close])"
    by (simp add: list_ex_iff)
  have ok: "r = Inr () \<longrightarrow>
            (\<exists>rest. calls = ?ric # rest \<and> \<not> list_ex is_RawInputClient rest) \<and>
            count_list calls Close = 1 \<and> last calls = Close"
    using s c0 r0 by auto
  have err: "(\<exists>e. r = Inl e) \<and> \<not> raises env Close \<longrightarrow> count_list calls Close = 0"
    using s c0 by auto
  from ok err show ?thesis by (rule conjI)
qed

theorem put_timeseries_closes_once_on_return_witness:
  "fst (put_timeseries quiet (factory (Some ''second'') None)
     [trace_of ''H'' 0 1 [Num 1]] None (Some [''H'', ''Z'']) None None) = Inr () \<and>
   count_list (snd (snd (put_timeseries quiet (factory (Some ''second'') None)
     [trace_of ''H'' 0 1 [Num 1]] None (Some [''H'', ''Z'']) None None))) Close = 1"
  using put_timeseries_closes_once_on_return [OF put_one_present_one_missing]
  by (simp add: put_one_present_one_missing)

text \<open>
  C2 as the specification states it fails: with the channels H and X, both present in
  the stream, the trace of H is sent and forced out, the channel code of X raises, and
  the put ends without a \<^verbatim>\<open>close\<close>.
\<close>

theorem put_timeseries_error_leaves_session_open_counterexample:
  "put_timeseries quiet (factory (Some ''second'') None)
     [trace_of ''H'' 0 1 [Num 1], trace_of ''X'' 0 1 [Num 2]] None (Some [''H'', ''X''])
     None None =
   (Inl (UnexpectedChannelCode ''X''),
    [trace_of ''H'' 0 1 [Num 1], trace_of ''X'' 0 1 [Num 2]],
    [RawInputClient ''GeomagAlg'' (Some ''localhost'') (Some 2060) [] 0,
     Send \<lparr>sn_station = Some ''BOU'', sn_channel = ''SVH'', sn_location = Some ''R0'',
            sn_network = ''NT''\<rparr> 1 [IntVal 1000] 0 1,
     Forceout \<lparr>sn_station = Some ''BOU'', sn_channel = ''SVH'', sn_location = Some ''R0'',
            sn_network = ''NT''\<rparr>])"
  by code_simp

end
